theory Spec2Isabelle
  imports Main "HOL-Library.Sublist"
begin

section \<open>JavaScript values\<close>

text \<open>
  The wrapper only forwards values into command tuples and tests them for truthiness.
  \<open>Undefined\<close> stands for an absent property as well as for an explicit
  \<^verbatim>\<open>undefined\<close>: destructuring with defaults and the \<^verbatim>\<open>&&\<close>, \<^verbatim>\<open>||\<close> tests of the source do
  not tell them apart. Numbers are never computed with, so \<open>int\<close> carries them.
\<close>

datatype jsval = Undefined | Null | JBool bool | JNum int | JStr string

fun truthy :: "jsval \<Rightarrow> bool" where
  "truthy Undefined = False"
| "truthy Null = False"
| "truthy (JBool b) = b"
| "truthy (JNum n) = (n \<noteq> 0)"
| "truthy (JStr s) = (s \<noteq> [])"

text \<open>\<^verbatim>\<open>a || b\<close>\<close>

definition js_or :: "jsval \<Rightarrow> jsval \<Rightarrow> jsval" where
  "js_or a b = (if truthy a then a else b)"

text \<open>\<^verbatim>\<open>s[i]\<close> on a string: the character at \<open>i\<close>, \<^verbatim>\<open>undefined\<close> out of range.\<close>

definition char_at :: "string \<Rightarrow> int \<Rightarrow> char option" where
  "char_at s i = (if 0 \<le> i \<and> i < int (length s) then Some (s ! nat i) else None)"

datatype error = Error string | TypeError string

section \<open>Data model\<close>

text \<open>
  \<^verbatim>\<open>UserOptions\<close>. A field is \<open>None\<close> when the key is absent from the object, which is
  what the object spread of the constructor looks at. \<open>urlBase\<close> is a string (its
  declared type): \<^verbatim>\<open>initialize\<close> indexes and concatenates it.
\<close>

record user_options =
  urlBase :: "string option"
  siteId :: "jsval option"
  trackerUrl :: "jsval option"
  srcUrl :: "jsval option"

text \<open>
  \<^verbatim>\<open>TRACK_TYPES\<close> comes from the constants module; the operations take it as a
  parameter.
\<close>

record track_types =
  TRACK_EVENT :: jsval
  TRACK_LINK :: jsval
  TRACK_SEARCH :: jsval
  TRACK_VIEW :: jsval

text \<open>\<^verbatim>\<open>CustomDimension\<close>: the fields \<^verbatim>\<open>id\<close> and \<^verbatim>\<open>value\<close>.\<close>

record custom_dimension =
  dim_id :: jsval
  dim_value :: jsval

text \<open>
  The \<^verbatim>\<open>customDimensions\<close> parameter: absent, a boolean, or an array of dimensions.
\<close>

datatype custom_dims = CDUndefined | CDBool bool | CDArray "custom_dimension list"

text \<open>
  \<^verbatim>\<open>TrackPageViewParams\<close>, the pass-through parameters (\<^verbatim>\<open>...otherParams\<close>), and
  \<^verbatim>\<open>TrackParams\<close>, which adds the command tuple \<^verbatim>\<open>data\<close> (\<open>None\<close>: not given).
\<close>

record track_page_view_params =
  documentTitle :: jsval
  href :: jsval
  customDimensions :: custom_dims

record track_params = track_page_view_params +
  data :: "jsval list option"

text \<open>
  An element of the document. \<open>parentNode\<close> says whether the element has a parent;
  a created element has none until it is inserted.
\<close>

record element =
  tagName :: string
  parentNode :: bool
  el_type :: jsval
  el_async :: bool
  el_defer :: bool
  el_src :: jsval

text \<open>
  The global state the wrapper reads and writes: the command queue \<^verbatim>\<open>window._paq\<close>
  (\<open>None\<close> while undefined), \<^verbatim>\<open>window.document.title\<close>, \<^verbatim>\<open>window.location.href\<close>, and
  the elements of the document in document order.
\<close>

record window =
  paq :: "jsval list list option"
  title :: string
  location_href :: string
  document :: "element list"

text \<open>
  A call returns the error it threw, if any, together with the state it leaves.
\<close>

type_synonym cmd = "window \<Rightarrow> error option \<times> window"

definition queue :: "window \<Rightarrow> jsval list list" where
  "queue w = (case paq w of None \<Rightarrow> [] | Some q \<Rightarrow> q)"

section \<open>Operations\<close>

text \<open>\<^verbatim>\<open>window._paq.push(t)\<close>; a \<^verbatim>\<open>TypeError\<close> when \<^verbatim>\<open>window._paq\<close> is undefined.\<close>

definition push :: "jsval list \<Rightarrow> cmd" where
  "push t w =
     (case paq w of
        None \<Rightarrow> (Some (TypeError ''window._paq is undefined''), w)
      | Some q \<Rightarrow> (None, w\<lparr>paq := Some (q @ [t])\<rparr>))"

text \<open>Statement sequencing: a thrown error stops the rest.\<close>

definition then_do :: "cmd \<Rightarrow> cmd \<Rightarrow> cmd" where
  "then_do f g w = (case f w of (None, w') \<Rightarrow> g w' | (Some e, w') \<Rightarrow> (Some e, w'))"

definition skip :: cmd where
  "skip w = (None, w)"

text \<open>\<^verbatim>\<open>xs.map((x) => window._paq.push(x))\<close>, the results of \<^verbatim>\<open>map\<close> being dropped.\<close>

fun push_all :: "jsval list list \<Rightarrow> cmd" where
  "push_all [] = skip"
| "push_all (t # ts) = then_do (push t) (push_all ts)"

text \<open>\<^verbatim>\<open>{ ...defaultOptions, ...userOptions }\<close>: a key of the right object wins.\<close>

definition spread_field :: "'a option \<Rightarrow> 'a option \<Rightarrow> 'a option" where
  "spread_field d u = (case u of None \<Rightarrow> d | Some v \<Rightarrow> Some v)"

definition spread :: "user_options \<Rightarrow> user_options \<Rightarrow> user_options" where
  "spread d u =
     \<lparr>urlBase = spread_field (urlBase d) (urlBase u),
      siteId = spread_field (siteId d) (siteId u),
      trackerUrl = spread_field (trackerUrl d) (trackerUrl u),
      srcUrl = spread_field (srcUrl d) (srcUrl u)\<rparr>"

text \<open>Reading a property: \<^verbatim>\<open>undefined\<close> when the key is absent.\<close>

definition read_prop :: "jsval option \<Rightarrow> jsval" where
  "read_prop f = (case f of None \<Rightarrow> Undefined | Some v \<Rightarrow> v)"

text \<open>
  Lines 24 to 26 of \<^verbatim>\<open>initialize\<close>:
  \<^verbatim>\<open>if (urlBase[urlBase.length - 1] !== '/') { urlBase = urlBase + '/' }\<close>
\<close>

definition normalize_urlBase :: "string \<Rightarrow> string" where
  "normalize_urlBase url =
     (if char_at url (int (length url) - 1) \<noteq> Some CHR ''/''
      then url @ ''/'' else url)"

text \<open>\<^verbatim>\<open>doc.getElementsByTagName('script')[0]\<close>: its position in the document, if any.\<close>

definition first_script :: "element list \<Rightarrow> nat option" where
  "first_script doc =
     (let i = length (takeWhile (\<lambda>e. tagName e \<noteq> ''script'') doc)
      in if i < length doc then Some i else None)"

text \<open>
  \<^verbatim>\<open>ref.parentNode.insertBefore(newNode, ref)\<close> for the element \<open>ref\<close> at position \<open>i\<close>:
  the new node becomes the sibling just before it, so it comes just before it in document
  order.
\<close>

definition insertBefore :: "element \<Rightarrow> nat \<Rightarrow> element list \<Rightarrow> element list" where
  "insertBefore newNode i doc = take i doc @ [newNode\<lparr>parentNode := True\<rparr>] @ drop i doc"

text \<open>Lines 40 to 51: create the script element and insert it.\<close>

definition scriptElement :: "jsval \<Rightarrow> string \<Rightarrow> element" where
  "scriptElement src url =
     \<lparr>tagName = ''script'', parentNode = False, el_type = JStr ''text/javascript'',
      el_async = True, el_defer = True,
      el_src = js_or src (JStr (url @ ''matomo.js''))\<rparr>"

definition insert_script :: "jsval \<Rightarrow> string \<Rightarrow> cmd" where
  "insert_script src url w =
     (case first_script (document w) of
        None \<Rightarrow> (None, w)
      | Some i \<Rightarrow>
          if parentNode (document w ! i)
          then (None, w\<lparr>document := insertBefore (scriptElement src url) i (document w)\<rparr>)
          else (None, w))"

text \<open>
  \<^verbatim>\<open>static initialize({ urlBase, siteId, trackerUrl, srcUrl })\<close>. Reading \<^verbatim>\<open>.length\<close> of
  an undefined \<^verbatim>\<open>urlBase\<close> throws a \<^verbatim>\<open>TypeError\<close>.
\<close>

definition initialize :: "user_options \<Rightarrow> cmd" where
  "initialize options w =
     (case urlBase options of
        None \<Rightarrow> (Some (TypeError ''urlBase is undefined''), w)
      | Some urlBase0 \<Rightarrow>
          (let urlBase1 = normalize_urlBase urlBase0;
               w1 = w\<lparr>paq := Some (case paq w of None \<Rightarrow> [] | Some q \<Rightarrow> q)\<rparr>
           in if length (queue w1) = 0
              then then_do (push [JStr ''setTrackerUrl'',
                                  js_or (read_prop (trackerUrl options)) (JStr (urlBase1 @ ''matomo.php''))])
                  (then_do (push [JStr ''setSiteId'', read_prop (siteId options)])
                  (then_do (push [JStr ''enableHeartBeatTimer''])
                  (then_do (push [JStr ''enableLinkTracking''])
                           (insert_script (read_prop (srcUrl options)) urlBase1)))) w1
              else (None, w1)))"

text \<open>
  The constructor. \<open>defaultOptions\<close> comes from the constants module and is a parameter.
  \<^verbatim>\<open>!options.urlBase\<close> holds for an absent and for an empty string.
\<close>

definition MatomoTracker :: "user_options \<Rightarrow> user_options \<Rightarrow> cmd" where
  "MatomoTracker defaultOptions userOptions w =
     (let options = spread defaultOptions userOptions
      in if (case urlBase options of None \<Rightarrow> True | Some s \<Rightarrow> s = [])
         then (Some (Error ''Matomo urlBase is required.''), w)
         else initialize options w)"

text \<open>
  \<^verbatim>\<open>track({ data = [], documentTitle = window.document.title,
  href = window.location.href, customDimensions = false })\<close>: a default applies when the
  property is undefined.
\<close>

definition dimension_tuple :: "custom_dimension \<Rightarrow> jsval list" where
  "dimension_tuple customDimension =
     [JStr ''setCustomDimension'', dim_id customDimension, dim_value customDimension]"

definition track :: "'a track_params_scheme \<Rightarrow> cmd" where
  "track p w =
     (let data' = (case data p of None \<Rightarrow> [] | Some d \<Rightarrow> d);
          documentTitle' = (if documentTitle p = Undefined then JStr (title w) else documentTitle p);
          href' = (if href p = Undefined then JStr (location_href w) else href p);
          customDimensions' =
            (if customDimensions p = CDUndefined then CDBool False else customDimensions p)
      in if length data' \<noteq> 0
         then then_do
                (case customDimensions' of
                   CDArray ds \<Rightarrow>
                     if length ds \<noteq> 0 then push_all (map dimension_tuple ds) else skip
                 | _ \<Rightarrow> skip)
             (then_do (push [JStr ''setCustomUrl'', href'])
             (then_do (push [JStr ''setDocumentTitle'', documentTitle'])
                      (push data'))) w
         else (None, w))"

text \<open>\<^verbatim>\<open>{ data: [...], ...otherParams }\<close>\<close>

definition with_data :: "jsval list \<Rightarrow> 'a track_page_view_params_scheme \<Rightarrow> track_params" where
  "with_data d otherParams =
     \<lparr>documentTitle = documentTitle otherParams, href = href otherParams,
      customDimensions = customDimensions otherParams, data = Some d\<rparr>"

text \<open>\<^verbatim>\<open>trackEvent({ category, action, name, value, ...otherParams })\<close>\<close>

definition trackEvent ::
  "track_types \<Rightarrow> jsval \<Rightarrow> jsval \<Rightarrow> jsval \<Rightarrow> jsval \<Rightarrow> track_page_view_params \<Rightarrow> cmd" where
  "trackEvent TT category action name value otherParams w =
     (if truthy category \<and> truthy action
      then track (with_data [TRACK_EVENT TT, category, action, name, value] otherParams) w
      else (Some (Error ''Error: category and action are required.''), w))"

text \<open>\<^verbatim>\<open>trackSiteSearch({ keyword, category, count, ...otherParams })\<close>\<close>

definition trackSiteSearch ::
  "track_types \<Rightarrow> jsval \<Rightarrow> jsval \<Rightarrow> jsval \<Rightarrow> track_page_view_params \<Rightarrow> cmd" where
  "trackSiteSearch TT keyword category count otherParams w =
     (if truthy keyword
      then track (with_data [TRACK_SEARCH TT, keyword, category, count] otherParams) w
      else (Some (Error ''Error: keyword is required.''), w))"

text \<open>\<^verbatim>\<open>trackLink({ href, linkType = 'link' })\<close>\<close>

definition trackLink :: "track_types \<Rightarrow> jsval \<Rightarrow> jsval \<Rightarrow> cmd" where
  "trackLink TT url linkType w =
     (let linkType' = (if linkType = Undefined then JStr ''link'' else linkType)
      in push [TRACK_LINK TT, url, linkType'] w)"

text \<open>\<^verbatim>\<open>trackPageView(params)\<close>\<close>

definition trackPageView :: "track_types \<Rightarrow> track_page_view_params \<Rightarrow> cmd" where
  "trackPageView TT params w = track (with_data [TRACK_VIEW TT] params) w"

section \<open>Notions used in the statements\<close>

text \<open>The dimensions that a \<^verbatim>\<open>customDimensions\<close> argument lists: those of an array, else none.\<close>

definition dimensions_of :: "custom_dims \<Rightarrow> custom_dimension list" where
  "dimensions_of c = (case c of CDArray ds \<Rightarrow> ds | _ \<Rightarrow> [])"

text \<open>The four initialization tuples for merged options with base URL \<open>b\<close>.\<close>

definition init_tuples :: "user_options \<Rightarrow> string \<Rightarrow> jsval list list" where
  "init_tuples options b =
     [[JStr ''setTrackerUrl'',
       js_or (read_prop (trackerUrl options)) (JStr (normalize_urlBase b @ ''matomo.php''))],
      [JStr ''setSiteId'', read_prop (siteId options)],
      [JStr ''enableHeartBeatTimer''],
      [JStr ''enableLinkTracking'']]"

text \<open>Concrete inputs for the examples.\<close>

definition no_options :: user_options where
  "no_options = \<lparr>urlBase = None, siteId = None, trackerUrl = None, srcUrl = None\<rparr>"

definition example_options :: user_options where
  "example_options =
     \<lparr>urlBase = Some ''http://x'', siteId = Some (JNum 1), trackerUrl = None, srcUrl = None\<rparr>"

definition example_types :: track_types where
  "example_types =
     \<lparr>TRACK_EVENT = JStr ''trackEvent'', TRACK_LINK = JStr ''trackLink'',
      TRACK_SEARCH = JStr ''trackSiteSearch'', TRACK_VIEW = JStr ''trackPageView''\<rparr>"

definition no_params :: track_page_view_params where
  "no_params = \<lparr>documentTitle = Undefined, href = Undefined, customDimensions = CDUndefined\<rparr>"

definition page_script :: element where
  "page_script =
     \<lparr>tagName = ''script'', parentNode = True, el_type = JStr ''text/javascript'',
      el_async = False, el_defer = False, el_src = JStr ''app.js''\<rparr>"

definition page_heading :: element where
  "page_heading =
     \<lparr>tagName = ''h1'', parentNode = True, el_type = Undefined,
      el_async = False, el_defer = False, el_src = Undefined\<rparr>"

text \<open>A fresh page: no queue yet, one heading and one script.\<close>

definition fresh_window :: window where
  "fresh_window =
     \<lparr>paq = None, title = ''Home'', location_href = ''http://page/'',
      document = [page_heading, page_script]\<rparr>"

text \<open>A page whose queue already holds a command.\<close>

definition busy_window :: window where
  "busy_window =
     \<lparr>paq = Some [[JStr ''trackPageView'']], title = ''Home'', location_href = ''http://page/'',
      document = [page_heading, page_script]\<rparr>"

text \<open>A page with an empty queue and no script element.\<close>

definition scriptless_window :: window where
  "scriptless_window =
     \<lparr>paq = Some [], title = ''Home'', location_href = ''http://page/'',
      document = [page_heading]\<rparr>"

section \<open>Basic facts\<close>

subsection \<open>Pushing onto the queue\<close>

lemma push_defined: "paq w = Some q \<Longrightarrow> push t w = (None, w\<lparr>paq := Some (q @ [t])\<rparr>)"
  by (simp add: push_def)

lemma push_all_defined:
  "paq w = Some q \<Longrightarrow> push_all ts w = (None, w\<lparr>paq := Some (q @ ts)\<rparr>)"
proof (induction ts arbitrary: w q)
  case Nil
  then show ?case by (simp add: skip_def)
next
  case (Cons t ts)
  have "push_all ts (w\<lparr>paq := Some (q @ [t])\<rparr>) = (None, w\<lparr>paq := Some ((q @ [t]) @ ts)\<rparr>)"
    using Cons.IH [of "w\<lparr>paq := Some (q @ [t])\<rparr>" "q @ [t]"] by simp
  with Cons.prems show ?case
    by (simp add: then_do_def push_defined)
qed

lemma dimension_pushes:
  "paq w = Some q \<Longrightarrow>
   (case c of CDArray ds \<Rightarrow> if length ds \<noteq> 0 then push_all (map dimension_tuple ds) else skip
            | _ \<Rightarrow> skip) w
   = (None, w\<lparr>paq := Some (q @ map dimension_tuple (dimensions_of c))\<rparr>)"
  by (cases c) (simp_all add: dimensions_of_def skip_def push_all_defined)

lemma track_defined:
  assumes "data p = Some d" and "d \<noteq> []" and "paq w = Some q"
  shows "track p w =
    (None, w\<lparr>paq := Some (q @ map dimension_tuple (dimensions_of (customDimensions p))
       @ [[JStr ''setCustomUrl'', if href p = Undefined then JStr (location_href w) else href p],
          [JStr ''setDocumentTitle'',
             if documentTitle p = Undefined then JStr (title w) else documentTitle p],
          d])\<rparr>)"
proof -
  let ?c = "if customDimensions p = CDUndefined then CDBool False else customDimensions p"
  have c: "dimensions_of ?c = dimensions_of (customDimensions p)"
    by (simp add: dimensions_of_def)
  have 1: "(case ?c of CDArray ds \<Rightarrow> if length ds \<noteq> 0 then push_all (map dimension_tuple ds) else skip
            | _ \<Rightarrow> skip) w
     = (None, w\<lparr>paq := Some (q @ map dimension_tuple (dimensions_of (customDimensions p)))\<rparr>)"
    using dimension_pushes [OF assms(3), of ?c] c by simp
  show ?thesis
    using assms(1,2) 1 unfolding track_def Let_def then_do_def
    by (simp add: push_def)
qed

lemma track_undefined_queue:
  "paq w = None \<Longrightarrow> snd (track p w) = w"
proof -
  assume n: "paq w = None"
  have 1: "push_all ts w = (if ts = [] then (None, w) else (Some (TypeError ''window._paq is undefined''), w))" for ts
    using n by (cases ts) (simp_all add: skip_def then_do_def push_def)
  show ?thesis
    using n unfolding track_def Let_def then_do_def
    by (cases "customDimensions p") (simp_all add: push_def skip_def 1)
qed

subsection \<open>The queue only grows\<close>

lemma track_prefix: "prefix (queue w) (queue (snd (track p w)))"
proof (cases "paq w")
  case None
  then show ?thesis by (simp add: track_undefined_queue)
next
  case (Some q)
  show ?thesis
  proof (cases "data p")
    case None
    then show ?thesis by (simp add: track_def)
  next
    case (Some d)
    show ?thesis
    proof (cases "d = []")
      case True
      with Some show ?thesis by (simp add: track_def)
    next
      case False
      show ?thesis
        using track_defined [OF Some False \<open>paq w = Some q\<close>] \<open>paq w = Some q\<close>
        by (simp add: queue_def)
    qed
  qed
qed

lemma push_prefix: "prefix (queue w) (queue (snd (push t w)))"
  by (cases "paq w") (simp_all add: push_def queue_def)

lemma insert_script_paq: "paq (snd (insert_script s u w)) = paq w"
  by (simp add: insert_script_def split: option.splits)

lemma insert_script_fst: "fst (insert_script s u w) = None"
  by (simp add: insert_script_def split: option.splits)

subsection \<open>Initialization\<close>

lemma initialize_empty:
  assumes "urlBase options = Some b" and "queue w = []"
  shows "initialize options w =
     insert_script (read_prop (srcUrl options)) (normalize_urlBase b)
       (w\<lparr>paq := Some (init_tuples options b)\<rparr>)"
  using assms
  by (cases "paq w") (simp_all add: initialize_def Let_def queue_def then_do_def push_def init_tuples_def)

lemma initialize_nonempty:
  assumes "urlBase options = Some b" and "queue w \<noteq> []"
  shows "initialize options w = (None, w)"
  using assms
  by (cases "paq w") (simp_all add: initialize_def Let_def queue_def)

lemma MatomoTracker_accepts:
  "urlBase (spread d u) = Some b \<Longrightarrow> b \<noteq> [] \<Longrightarrow> MatomoTracker d u w = initialize (spread d u) w"
  by (simp add: MatomoTracker_def)

lemma MatomoTracker_rejects:
  "urlBase (spread d u) = None \<or> urlBase (spread d u) = Some [] \<Longrightarrow>
   MatomoTracker d u w = (Some (Error ''Matomo urlBase is required.''), w)"
  by (auto simp: MatomoTracker_def)

lemma MatomoTracker_nonempty_queue:
  assumes "queue w \<noteq> []"
  shows "snd (MatomoTracker d u w) = w"
proof (cases "urlBase (spread d u)")
  case None
  then show ?thesis by (simp add: MatomoTracker_rejects)
next
  case (Some b)
  then show ?thesis
    using assms by (cases "b = []") (simp_all add: MatomoTracker_rejects MatomoTracker_accepts initialize_nonempty)
qed

lemma MatomoTracker_empty_queue:
  assumes "urlBase (spread d u) = Some b" and "b \<noteq> []" and "queue w = []"
  shows "queue (snd (MatomoTracker d u w)) = init_tuples (spread d u) b"
  using assms
  by (simp add: MatomoTracker_accepts initialize_empty queue_def insert_script_paq)

lemma initialize_empty_queue:
  assumes "urlBase options = Some b" and "queue w = []"
  shows "queue (snd (initialize options w)) = init_tuples options b"
  using assms by (simp add: initialize_empty queue_def insert_script_paq)

lemma initialize_prefix: "prefix (queue w) (queue (snd (initialize options w)))"
proof (cases "urlBase options")
  case None
  then show ?thesis by (simp add: initialize_def)
next
  case (Some b)
  then show ?thesis
    by (cases "queue w = []") (simp_all add: initialize_nonempty)
qed

lemma MatomoTracker_prefix: "prefix (queue w) (queue (snd (MatomoTracker d u w)))"
  by (cases "queue w = []") (simp_all add: MatomoTracker_nonempty_queue)

lemma initialize_succeeds: "urlBase options = Some b \<Longrightarrow> fst (initialize options w) = None"
  by (cases "queue w = []") (simp_all add: initialize_empty initialize_nonempty insert_script_fst)

lemma normalize_urlBase_last:
  "normalize_urlBase b = (if b \<noteq> [] \<and> last b = CHR ''/'' then b else b @ ''/'')"
proof (cases "b = []")
  case True
  then show ?thesis by (simp add: normalize_urlBase_def char_at_def)
next
  case False
  then have "char_at b (int (length b) - 1) = Some (last b)"
    by (simp add: char_at_def last_conv_nth nat_diff_distrib')
  with False show ?thesis by (simp add: normalize_urlBase_def)
qed

subsection \<open>The script element\<close>

lemma first_script_found:
  assumes "\<forall>e \<in> set pre. tagName e \<noteq> ''script''" and "tagName s = ''script''"
  shows "first_script (pre @ s # post) = Some (length pre)"
  using assms by (simp add: first_script_def Let_def)

lemma first_script_none:
  assumes "\<forall>e \<in> set doc. tagName e \<noteq> ''script''"
  shows "first_script doc = None"
proof -
  have "length (takeWhile (\<lambda>e. tagName e \<noteq> ''script'') doc) = length doc"
    using assms by (induction doc) simp_all
  then show ?thesis by (simp add: first_script_def Let_def)
qed

lemma insert_script_found:
  assumes "document w = pre @ s # post" and "\<forall>e \<in> set pre. tagName e \<noteq> ''script''"
    and "tagName s = ''script''" and "parentNode s"
  shows "insert_script src url w =
     (None, w\<lparr>document := pre @ (scriptElement src url)\<lparr>parentNode := True\<rparr> # s # post\<rparr>)"
  using assms by (simp add: insert_script_def first_script_found insertBefore_def)

lemma insert_script_none:
  assumes "\<forall>e \<in> set (document w). tagName e \<noteq> ''script''"
  shows "insert_script src url w = (None, w)"
  using assms by (simp add: insert_script_def first_script_none)

lemma MatomoTracker_defines_queue:
  assumes "fst (MatomoTracker d u w) = None"
  shows "paq (snd (MatomoTracker d u w)) \<noteq> None"
proof (cases "urlBase (spread d u)")
  case None
  with assms show ?thesis by (simp add: MatomoTracker_rejects)
next
  case (Some b)
  with assms have b: "b \<noteq> []" by (auto simp: MatomoTracker_rejects)
  show ?thesis
  proof (cases "queue w = []")
    case True
    with Some b show ?thesis
      by (simp add: MatomoTracker_accepts initialize_empty insert_script_paq)
  next
    case False
    then have "paq w \<noteq> None" by (cases "paq w") (simp_all add: queue_def)
    with False show ?thesis by (simp add: MatomoTracker_nonempty_queue)
  qed
qed

text \<open>Once the queue exists, every tracking method leaves it existing.\<close>

lemma track_keeps_queue:
  assumes "paq w = Some q"
  shows "\<exists>q'. paq (snd (track p w)) = Some q'"
proof (cases "data p")
  case None
  with assms show ?thesis by (simp add: track_def)
next
  case (Some d)
  show ?thesis
  proof (cases "d = []")
    case True
    with Some assms show ?thesis by (simp add: track_def)
  next
    case False
    show ?thesis
      by (simp add: track_defined [OF Some False assms])
  qed
qed

lemma methods_keep_queue:
  assumes "paq w = Some q"
  shows "\<exists>q'. paq (snd (trackEvent TT category action name value otherParams w)) = Some q'"
    and "\<exists>q'. paq (snd (trackSiteSearch TT keyword category count otherParams w)) = Some q'"
    and "\<exists>q'. paq (snd (trackPageView TT otherParams w)) = Some q'"
    and "\<exists>q'. paq (snd (trackLink TT url linkType w)) = Some q'"
  using assms
  by (simp_all add: trackEvent_def trackSiteSearch_def trackPageView_def trackLink_def Let_def
      track_keeps_queue push_defined)

lemma trackEvent_prefix:
  "prefix (queue w) (queue (snd (trackEvent TT category action name value otherParams w)))"
  by (simp add: trackEvent_def track_prefix)

lemma trackSiteSearch_prefix:
  "prefix (queue w) (queue (snd (trackSiteSearch TT keyword category count otherParams w)))"
  by (simp add: trackSiteSearch_def track_prefix)

section \<open>The claims\<close>

subsection \<open>C1: what \<^verbatim>\<open>track\<close> appends, and in which order\<close>

text \<open>
  Claim C1. A call of \<^verbatim>\<open>track\<close> with a non-empty data tuple, on a page whose queue exists,
  throws nothing and appends to the queue exactly: one \<^verbatim>\<open>setCustomDimension\<close> tuple for each
  entry of the custom-dimensions list, in the order of the list (none when the argument is
  no array or an empty one), then \<^verbatim>\<open>setCustomUrl\<close> with the resolved URL (the argument, or
  \<^verbatim>\<open>window.location.href\<close> when it is undefined), then \<^verbatim>\<open>setDocumentTitle\<close> with the resolved
  title (the argument, or \<^verbatim>\<open>window.document.title\<close>), then the data tuple. Nothing else of the
  state changes.
\<close>

theorem track_appends_in_order:
  assumes "data p = Some d" and "d \<noteq> []" and "paq w = Some q"
  shows "track p w =
    (None, w\<lparr>paq := Some (q @ map dimension_tuple (dimensions_of (customDimensions p))
       @ [[JStr ''setCustomUrl'', if href p = Undefined then JStr (location_href w) else href p],
          [JStr ''setDocumentTitle'',
             if documentTitle p = Undefined then JStr (title w) else documentTitle p],
          d])\<rparr>)"
  using assms by (rule track_defined)

theorem track_appends_in_order_witness:
  "paq busy_window = Some [[JStr ''trackPageView'']] \<and>
   track \<lparr>documentTitle = Undefined, href = JStr ''http://page/a'',
          customDimensions = CDArray [\<lparr>dim_id = JNum 1, dim_value = JStr ''x''\<rparr>,
                                      \<lparr>dim_id = JNum 2, dim_value = JStr ''y''\<rparr>],
          data = Some [JStr ''trackPageView'']\<rparr> busy_window =
     (None, busy_window\<lparr>paq := Some
        [[JStr ''trackPageView''],
         [JStr ''setCustomDimension'', JNum 1, JStr ''x''],
         [JStr ''setCustomDimension'', JNum 2, JStr ''y''],
         [JStr ''setCustomUrl'', JStr ''http://page/a''],
         [JStr ''setDocumentTitle'', JStr ''Home''],
         [JStr ''trackPageView'']]\<rparr>)"
proof -
  have q: "paq busy_window = Some [[JStr ''trackPageView'']]"
    by (simp add: busy_window_def)
  have t: "title busy_window = ''Home''"
    by (simp add: busy_window_def)
  show ?thesis
    using q t track_appends_in_order [of
        "\<lparr>documentTitle = Undefined, href = JStr ''http://page/a'',
          customDimensions = CDArray [\<lparr>dim_id = JNum 1, dim_value = JStr ''x''\<rparr>,
                                      \<lparr>dim_id = JNum 2, dim_value = JStr ''y''\<rparr>],
          data = Some [JStr ''trackPageView'']\<rparr>"
        "[JStr ''trackPageView'']" busy_window "[[JStr ''trackPageView'']]"]
    by (simp add: dimensions_of_def dimension_tuple_def)
qed

subsection \<open>C2: the initialization commands are queued once\<close>

text \<open>
  Claim C2. A construction that succeeds on an empty (or not yet created) queue leaves
  exactly the four initialization tuples \<^verbatim>\<open>setTrackerUrl\<close>, \<^verbatim>\<open>setSiteId\<close>,
  \<^verbatim>\<open>enableHeartBeatTimer\<close>, \<^verbatim>\<open>enableLinkTracking\<close>, in that order; a second construction
  after it, with any options, leaves the same four tuples, not eight; and a construction
  that finds the queue non-empty leaves the queue as it was.
\<close>

theorem init_once:
  "(queue w = [] \<and> urlBase (spread d u) = Some b \<and> b \<noteq> [] \<longrightarrow>
      queue (snd (MatomoTracker d u w)) = init_tuples (spread d u) b \<and>
      queue (snd (MatomoTracker d' u' (snd (MatomoTracker d u w)))) = init_tuples (spread d u) b \<and>
      length (queue (snd (MatomoTracker d' u' (snd (MatomoTracker d u w))))) = 4) \<and>
   (queue w \<noteq> [] \<longrightarrow> queue (snd (MatomoTracker d u w)) = queue w)"
proof -
  have "queue (snd (MatomoTracker d' u' (snd (MatomoTracker d u w)))) = init_tuples (spread d u) b"
    if "queue w = []" "urlBase (spread d u) = Some b" "b \<noteq> []"
  proof -
    have 1: "queue (snd (MatomoTracker d u w)) = init_tuples (spread d u) b"
      using that by (simp add: MatomoTracker_empty_queue)
    then have "queue (snd (MatomoTracker d u w)) \<noteq> []"
      by (simp add: init_tuples_def)
    then show ?thesis
      using 1 by (simp add: MatomoTracker_nonempty_queue)
  qed
  moreover have "length (init_tuples (spread d u) b) = 4"
    by (simp add: init_tuples_def)
  ultimately show ?thesis
    by (simp add: MatomoTracker_empty_queue MatomoTracker_nonempty_queue)
qed

theorem init_once_witness:
  "queue fresh_window = [] \<and> urlBase (spread no_options example_options) = Some ''http://x'' \<and>
   queue (snd (MatomoTracker no_options example_options
            (snd (MatomoTracker no_options example_options fresh_window)))) =
     [[JStr ''setTrackerUrl'', JStr ''http://x/matomo.php''],
      [JStr ''setSiteId'', JNum 1],
      [JStr ''enableHeartBeatTimer''],
      [JStr ''enableLinkTracking'']] \<and>
   queue busy_window \<noteq> [] \<and>
   queue (snd (MatomoTracker no_options example_options busy_window)) = queue busy_window"
proof -
  have 1: "queue fresh_window = []"
    by (simp add: fresh_window_def queue_def)
  have 2: "urlBase (spread no_options example_options) = Some ''http://x''"
    by (simp add: spread_def spread_field_def no_options_def example_options_def)
  have 3: "init_tuples (spread no_options example_options) ''http://x'' =
     [[JStr ''setTrackerUrl'', JStr ''http://x/matomo.php''],
      [JStr ''setSiteId'', JNum 1],
      [JStr ''enableHeartBeatTimer''],
      [JStr ''enableLinkTracking'']]"
    by (simp add: init_tuples_def spread_def spread_field_def no_options_def example_options_def
        read_prop_def js_or_def normalize_urlBase_last)
  have 4: "queue busy_window \<noteq> []"
    by (simp add: busy_window_def queue_def)
  show ?thesis
    using 1 2 3 4
      init_once [of fresh_window no_options example_options "''http://x''"
        no_options example_options]
      init_once [of busy_window no_options example_options "''http://x''"
        no_options example_options]
    by simp
qed

subsection \<open>C3: the base URL is required\<close>

text \<open>
  Claim C3. Construction throws \<^verbatim>\<open>Error('Matomo urlBase is required.')\<close> (the configuration
  error), leaving the state untouched, when the supplied options give an empty \<^verbatim>\<open>urlBase\<close>,
  and when they give none and the default options give none or an empty one. Construction
  with a non-empty \<^verbatim>\<open>urlBase\<close> succeeds, whatever the default options, the other options and
  the state of the page.
\<close>

theorem construction_requires_urlBase:
  "(urlBase u = Some s \<and> s \<noteq> [] \<longrightarrow> fst (MatomoTracker d u w) = None) \<and>
   (urlBase u = Some [] \<longrightarrow>
      MatomoTracker d u w = (Some (Error ''Matomo urlBase is required.''), w)) \<and>
   (urlBase u = None \<and> (urlBase d = None \<or> urlBase d = Some []) \<longrightarrow>
      MatomoTracker d u w = (Some (Error ''Matomo urlBase is required.''), w))"
proof (intro conjI impI)
  assume "urlBase u = Some s \<and> s \<noteq> []"
  then have "urlBase (spread d u) = Some s" and "s \<noteq> []"
    by (simp_all add: spread_def spread_field_def)
  then show "fst (MatomoTracker d u w) = None"
    by (simp add: MatomoTracker_accepts initialize_succeeds)
next
  assume "urlBase u = Some []"
  then have "urlBase (spread d u) = Some []"
    by (simp add: spread_def spread_field_def)
  then show "MatomoTracker d u w = (Some (Error ''Matomo urlBase is required.''), w)"
    by (simp add: MatomoTracker_rejects)
next
  assume "urlBase u = None \<and> (urlBase d = None \<or> urlBase d = Some [])"
  then have "urlBase (spread d u) = None \<or> urlBase (spread d u) = Some []"
    by (simp add: spread_def spread_field_def)
  then show "MatomoTracker d u w = (Some (Error ''Matomo urlBase is required.''), w)"
    by (rule MatomoTracker_rejects)
qed

theorem construction_requires_urlBase_witness:
  "urlBase example_options = Some ''http://x'' \<and>
   fst (MatomoTracker no_options example_options fresh_window) = None \<and>
   urlBase (example_options\<lparr>urlBase := Some []\<rparr>) = Some [] \<and>
   MatomoTracker no_options (example_options\<lparr>urlBase := Some []\<rparr>) fresh_window =
     (Some (Error ''Matomo urlBase is required.''), fresh_window) \<and>
   urlBase no_options = None \<and>
   MatomoTracker no_options no_options fresh_window =
     (Some (Error ''Matomo urlBase is required.''), fresh_window)"
proof -
  have 1: "urlBase example_options = Some ''http://x''"
    by (simp add: example_options_def)
  have 2: "urlBase no_options = None"
    by (simp add: no_options_def)
  show ?thesis
    using 1 2
      construction_requires_urlBase [of example_options "''http://x''" no_options fresh_window]
      construction_requires_urlBase
        [of "example_options\<lparr>urlBase := Some []\<rparr>" "''http://x''" no_options fresh_window]
      construction_requires_urlBase [of no_options "''http://x''" no_options fresh_window]
    by simp
qed

subsection \<open>C4: the script element\<close>

text \<open>
  Claim C4, as amended. The script element is created and inserted inside the same
  queue-empty guard as the initialization commands. A successful construction that finds
  the queue empty inserts a script element (type \<^verbatim>\<open>text/javascript\<close>, async, defer, source
  the \<^verbatim>\<open>srcUrl\<close> override or the normalized base URL followed by \<^verbatim>\<open>matomo.js\<close>) just before
  the first script element of the document, when there is one and it has a parent; when
  the document has no script element nothing is inserted, and when the queue is not empty
  the document is left as it was.
\<close>

theorem script_inserted_under_guard:
  assumes "urlBase (spread d u) = Some b" and "b \<noteq> []"
  shows
   "(queue w = [] \<and> document w = pre @ s # post \<and> (\<forall>e \<in> set pre. tagName e \<noteq> ''script'') \<and>
       tagName s = ''script'' \<and> parentNode s \<longrightarrow>
       document (snd (MatomoTracker d u w)) =
         pre @ \<lparr>tagName = ''script'', parentNode = True, el_type = JStr ''text/javascript'',
                 el_async = True, el_defer = True,
                 el_src = js_or (read_prop (srcUrl (spread d u)))
                            (JStr (normalize_urlBase b @ ''matomo.js''))\<rparr> # s # post) \<and>
    (queue w = [] \<and> (\<forall>e \<in> set (document w). tagName e \<noteq> ''script'') \<longrightarrow>
       document (snd (MatomoTracker d u w)) = document w) \<and>
    (queue w \<noteq> [] \<longrightarrow> document (snd (MatomoTracker d u w)) = document w)"
proof (intro conjI impI)
  assume a: "queue w = [] \<and> document w = pre @ s # post \<and>
    (\<forall>e \<in> set pre. tagName e \<noteq> ''script'') \<and> tagName s = ''script'' \<and> parentNode s"
  let ?w = "w\<lparr>paq := Some (init_tuples (spread d u) b)\<rparr>"
  have "document ?w = pre @ s # post" using a by simp
  then have "insert_script (read_prop (srcUrl (spread d u))) (normalize_urlBase b) ?w =
     (None, ?w\<lparr>document := pre @ (scriptElement (read_prop (srcUrl (spread d u)))
        (normalize_urlBase b))\<lparr>parentNode := True\<rparr> # s # post\<rparr>)"
    using a by (intro insert_script_found) simp_all
  then show "document (snd (MatomoTracker d u w)) =
         pre @ \<lparr>tagName = ''script'', parentNode = True, el_type = JStr ''text/javascript'',
                 el_async = True, el_defer = True,
                 el_src = js_or (read_prop (srcUrl (spread d u)))
                            (JStr (normalize_urlBase b @ ''matomo.js''))\<rparr> # s # post"
    using assms a by (simp add: MatomoTracker_accepts initialize_empty scriptElement_def)
next
  assume a: "queue w = [] \<and> (\<forall>e \<in> set (document w). tagName e \<noteq> ''script'')"
  then show "document (snd (MatomoTracker d u w)) = document w"
    using assms by (simp add: MatomoTracker_accepts initialize_empty insert_script_none)
next
  assume "queue w \<noteq> []"
  then show "document (snd (MatomoTracker d u w)) = document w"
    by (simp add: MatomoTracker_nonempty_queue)
qed

theorem script_inserted_under_guard_witness:
  "urlBase (spread no_options example_options) = Some ''http://x'' \<and>
   queue fresh_window = [] \<and> document fresh_window = [page_heading] @ page_script # [] \<and>
   tagName page_heading \<noteq> ''script'' \<and> tagName page_script = ''script'' \<and>
   parentNode page_script \<and>
   document (snd (MatomoTracker no_options example_options fresh_window)) =
     [page_heading,
      \<lparr>tagName = ''script'', parentNode = True, el_type = JStr ''text/javascript'',
        el_async = True, el_defer = True, el_src = JStr ''http://x/matomo.js''\<rparr>,
      page_script] \<and>
   queue scriptless_window = [] \<and> tagName page_heading \<noteq> ''script'' \<and>
   document (snd (MatomoTracker no_options example_options scriptless_window)) = [page_heading] \<and>
   queue busy_window \<noteq> [] \<and>
   document (snd (MatomoTracker no_options example_options busy_window)) =
     [page_heading, page_script]"
proof -
  have u: "urlBase (spread no_options example_options) = Some ''http://x''"
    and s: "read_prop (srcUrl (spread no_options example_options)) = Undefined"
    by (simp_all add: spread_def spread_field_def no_options_def example_options_def read_prop_def)
  have b: "''http://x'' \<noteq> []" by simp
  have n: "normalize_urlBase ''http://x'' = ''http://x/''"
    by (simp add: normalize_urlBase_last)
  have f: "queue fresh_window = []" "document fresh_window = [page_heading] @ page_script # []"
    by (simp_all add: fresh_window_def queue_def)
  have l: "queue scriptless_window = []" "document scriptless_window = [page_heading]"
    by (simp_all add: scriptless_window_def queue_def)
  have y: "queue busy_window \<noteq> []" "document busy_window = [page_heading, page_script]"
    by (simp_all add: busy_window_def queue_def)
  have e: "tagName page_heading \<noteq> ''script''" "tagName page_script = ''script''"
    "parentNode page_script"
    by (simp_all add: page_heading_def page_script_def)
  show ?thesis
    using u s n f l y e
      script_inserted_under_guard [OF u b, of fresh_window "[page_heading]" page_script "[]"]
      script_inserted_under_guard [OF u b, of scriptless_window "[]" page_script "[]"]
      script_inserted_under_guard [OF u b, of busy_window "[]" page_script "[]"]
    by (simp add: js_or_def)
qed

text \<open>
  The claim as written fails twice. On a page whose queue already holds a command and whose
  document has a script element, a successful construction inserts nothing; and on a page
  with an empty queue and no script element, a successful construction appends nothing.
\<close>

theorem script_every_construction_counterexample:
  "fst (MatomoTracker no_options example_options busy_window) = None \<and>
   first_script (document busy_window) = Some 1 \<and>
   document (snd (MatomoTracker no_options example_options busy_window)) = document busy_window \<and>
   fst (MatomoTracker no_options example_options scriptless_window) = None \<and>
   queue scriptless_window = [] \<and>
   first_script (document scriptless_window) = None \<and>
   document (snd (MatomoTracker no_options example_options scriptless_window)) =
     document scriptless_window"
proof -
  have u: "urlBase (spread no_options example_options) = Some ''http://x''"
    by (simp add: spread_def spread_field_def no_options_def example_options_def)
  have b: "''http://x'' \<noteq> []" by simp
  have 1: "first_script (document busy_window) = Some 1"
    by (simp add: busy_window_def first_script_def page_heading_def page_script_def)
  have 2: "first_script (document scriptless_window) = None"
    by (simp add: scriptless_window_def first_script_def page_heading_def)
  have 3: "queue busy_window \<noteq> []" "queue scriptless_window = []"
    by (simp_all add: busy_window_def scriptless_window_def queue_def)
  have 4: "MatomoTracker no_options example_options busy_window = (None, busy_window)"
    using u b 3 by (simp add: MatomoTracker_accepts initialize_nonempty)
  have 5: "MatomoTracker no_options example_options scriptless_window =
     insert_script (read_prop (srcUrl (spread no_options example_options)))
       (normalize_urlBase ''http://x'')
       (scriptless_window\<lparr>paq := Some (init_tuples (spread no_options example_options) ''http://x'')\<rparr>)"
    using u b 3 by (simp add: MatomoTracker_accepts initialize_empty)
  show ?thesis
    using 1 2 3 unfolding 4 5
    by (simp add: insert_script_def)
qed

subsection \<open>C5: one separator between base URL and file name\<close>

text \<open>
  Claim C5. For every base URL \<open>b\<close>, when no tracker or script override is given,
  \<^verbatim>\<open>initialize\<close> on an empty queue queues \<^verbatim>\<open>setTrackerUrl\<close> first, with \<open>b\<close> followed by
  \<^verbatim>\<open>matomo.php\<close> when \<open>b\<close> ends in a slash and by \<^verbatim>\<open>/matomo.php\<close> otherwise; and the script
  element it inserts (before the first script element of the document) has as source \<open>b\<close>
  followed by \<^verbatim>\<open>matomo.js\<close>, respectively \<^verbatim>\<open>/matomo.js\<close>. A base without the trailing slash
  gets one, a base with it is left unchanged.
\<close>

theorem default_urls_one_separator:
  assumes "urlBase options = Some b" and "queue w = []"
    and "\<not> truthy (read_prop (trackerUrl options))" and "\<not> truthy (read_prop (srcUrl options))"
  shows "hd (queue (snd (initialize options w))) =
           [JStr ''setTrackerUrl'',
            JStr (if b \<noteq> [] \<and> last b = CHR ''/'' then b @ ''matomo.php'' else b @ ''/matomo.php'')] \<and>
         (document w = pre @ s # post \<and> (\<forall>e \<in> set pre. tagName e \<noteq> ''script'') \<and>
            tagName s = ''script'' \<and> parentNode s \<longrightarrow>
          el_src (document (snd (initialize options w)) ! length pre) =
            JStr (if b \<noteq> [] \<and> last b = CHR ''/'' then b @ ''matomo.js'' else b @ ''/matomo.js''))"
proof (intro conjI impI)
  show "hd (queue (snd (initialize options w))) =
           [JStr ''setTrackerUrl'',
            JStr (if b \<noteq> [] \<and> last b = CHR ''/'' then b @ ''matomo.php'' else b @ ''/matomo.php'')]"
    using assms(3)
    by (simp add: initialize_empty_queue [OF assms(1,2)] init_tuples_def js_or_def
        normalize_urlBase_last)
next
  assume a: "document w = pre @ s # post \<and> (\<forall>e \<in> set pre. tagName e \<noteq> ''script'') \<and>
            tagName s = ''script'' \<and> parentNode s"
  let ?w = "w\<lparr>paq := Some (init_tuples options b)\<rparr>"
  have "document ?w = pre @ s # post" using a by simp
  then have 1: "insert_script (read_prop (srcUrl options)) (normalize_urlBase b) ?w =
     (None, ?w\<lparr>document := pre @ (scriptElement (read_prop (srcUrl options))
        (normalize_urlBase b))\<lparr>parentNode := True\<rparr> # s # post\<rparr>)"
    using a by (intro insert_script_found) simp_all
  have 2: "initialize options w =
     (None, ?w\<lparr>document := pre @ (scriptElement (read_prop (srcUrl options))
        (normalize_urlBase b))\<lparr>parentNode := True\<rparr> # s # post\<rparr>)"
    using assms(1,2) 1 by (simp add: initialize_empty)
  show "el_src (document (snd (initialize options w)) ! length pre) =
            JStr (if b \<noteq> [] \<and> last b = CHR ''/'' then b @ ''matomo.js'' else b @ ''/matomo.js'')"
    using assms(4) unfolding 2
    by (simp add: scriptElement_def js_or_def normalize_urlBase_last)
qed

theorem default_urls_one_separator_witness:
  "urlBase example_options = Some ''http://x'' \<and>
   urlBase (example_options\<lparr>urlBase := Some ''http://x/''\<rparr>) = Some ''http://x/'' \<and>
   queue fresh_window = [] \<and>
   hd (queue (snd (initialize example_options fresh_window))) =
     [JStr ''setTrackerUrl'', JStr ''http://x/matomo.php''] \<and>
   el_src (document (snd (initialize example_options fresh_window)) ! 1) =
     JStr ''http://x/matomo.js'' \<and>
   hd (queue (snd (initialize (example_options\<lparr>urlBase := Some ''http://x/''\<rparr>) fresh_window))) =
     [JStr ''setTrackerUrl'', JStr ''http://x/matomo.php''] \<and>
   el_src (document (snd (initialize (example_options\<lparr>urlBase := Some ''http://x/''\<rparr>)
      fresh_window)) ! 1) = JStr ''http://x/matomo.js''"
proof -
  have o: "urlBase example_options = Some ''http://x''"
    "urlBase (example_options\<lparr>urlBase := Some ''http://x/''\<rparr>) = Some ''http://x/''"
    "\<not> truthy (read_prop (trackerUrl example_options))"
    "\<not> truthy (read_prop (srcUrl example_options))"
    "\<not> truthy (read_prop (trackerUrl (example_options\<lparr>urlBase := Some ''http://x/''\<rparr>)))"
    "\<not> truthy (read_prop (srcUrl (example_options\<lparr>urlBase := Some ''http://x/''\<rparr>)))"
    by (simp_all add: example_options_def read_prop_def)
  have f: "queue fresh_window = []" "document fresh_window = [page_heading] @ page_script # []"
    by (simp_all add: fresh_window_def queue_def)
  have e: "tagName page_heading \<noteq> ''script''" "tagName page_script = ''script''"
    "parentNode page_script"
    by (simp_all add: page_heading_def page_script_def)
  show ?thesis
    using o(1,2) f e
      default_urls_one_separator [OF o(1) f(1) o(3) o(4), of "[page_heading]" page_script "[]"]
      default_urls_one_separator [OF o(2) f(1) o(5) o(6), of "[page_heading]" page_script "[]"]
    by simp
qed

subsection \<open>C6: what \<^verbatim>\<open>trackEvent\<close> appends\<close>

text \<open>
  Claim C6, as amended. \<^verbatim>\<open>trackEvent\<close> tests category and action for truthiness, so for a
  string it asks that the string be non-empty. For every call of \<^verbatim>\<open>trackEvent\<close> whose
  category and action are both truthy (present and non-empty) and which supplies no custom
  dimensions, on a page whose queue exists, exactly three tuples are appended, in order:
  \<^verbatim>\<open>setCustomUrl\<close>, \<^verbatim>\<open>setDocumentTitle\<close>, and the event tuple of the event type, category,
  action, name and value, the last two undefined when not supplied.
\<close>

theorem trackEvent_appends_three:
  assumes "truthy category" and "truthy action"
    and "dimensions_of (customDimensions otherParams) = []" and "paq w = Some q"
  shows "trackEvent TT category action name value otherParams w =
    (None, w\<lparr>paq := Some (q @
       [[JStr ''setCustomUrl'',
           if href otherParams = Undefined then JStr (location_href w) else href otherParams],
        [JStr ''setDocumentTitle'',
           if documentTitle otherParams = Undefined then JStr (title w)
           else documentTitle otherParams],
        [TRACK_EVENT TT, category, action, name, value]])\<rparr>)"
proof -
  let ?p = "with_data [TRACK_EVENT TT, category, action, name, value] otherParams"
  have "data ?p = Some [TRACK_EVENT TT, category, action, name, value]"
    by (simp add: with_data_def)
  from track_defined [OF this _ assms(4)] assms(1-3) show ?thesis
    by (simp add: trackEvent_def with_data_def)
qed

theorem trackEvent_appends_three_witness:
  "truthy (JStr ''c'') \<and> truthy (JStr ''a'') \<and>
   paq busy_window = Some [[JStr ''trackPageView'']] \<and>
   trackEvent example_types (JStr ''c'') (JStr ''a'') Undefined Undefined no_params busy_window =
     (None, busy_window\<lparr>paq := Some
        [[JStr ''trackPageView''],
         [JStr ''setCustomUrl'', JStr ''http://page/''],
         [JStr ''setDocumentTitle'', JStr ''Home''],
         [JStr ''trackEvent'', JStr ''c'', JStr ''a'', Undefined, Undefined]]\<rparr>)"
proof -
  have t: "truthy (JStr ''c'')" "truthy (JStr ''a'')"
    by simp_all
  have d: "dimensions_of (customDimensions no_params) = []"
    by (simp add: no_params_def dimensions_of_def)
  have q: "paq busy_window = Some [[JStr ''trackPageView'']]"
    by (simp add: busy_window_def)
  have v: "href no_params = Undefined" "documentTitle no_params = Undefined"
    "location_href busy_window = ''http://page/''" "title busy_window = ''Home''"
    "TRACK_EVENT example_types = JStr ''trackEvent''"
    by (simp_all add: no_params_def busy_window_def example_types_def)
  show ?thesis
    using t q v
      trackEvent_appends_three [OF t d q, of example_types Undefined Undefined]
    by simp
qed

text \<open>
  The claim as written fails for a category that is present and empty: the call throws and
  the queue keeps its one tuple, instead of growing by three.
\<close>

theorem trackEvent_present_counterexample:
  "trackEvent example_types (JStr '''') (JStr ''a'') Undefined Undefined no_params busy_window =
     (Some (Error ''Error: category and action are required.''), busy_window) \<and>
   queue busy_window = [[JStr ''trackPageView'']] \<and>
   queue (snd (trackEvent example_types (JStr '''') (JStr ''a'') Undefined Undefined no_params
      busy_window)) \<noteq>
     queue busy_window @
       [[JStr ''setCustomUrl'', JStr ''http://page/''],
        [JStr ''setDocumentTitle'', JStr ''Home''],
        [JStr ''trackEvent'', JStr '''', JStr ''a'', Undefined, Undefined]]"
  by (simp add: trackEvent_def busy_window_def queue_def)

subsection \<open>C7: missing fields\<close>

text \<open>
  Claim C7. \<^verbatim>\<open>trackEvent\<close> with the category absent, \<^verbatim>\<open>trackEvent\<close> with the action absent,
  and \<^verbatim>\<open>trackSiteSearch\<close> with the keyword absent each throw their missing-field error
  (\<^verbatim>\<open>Error('Error: category and action are required.')\<close>, respectively
  \<^verbatim>\<open>Error('Error: keyword is required.')\<close>) and leave the whole state, the queue included,
  as it was, whatever the other arguments and the state.
\<close>

theorem missing_field_throws:
  "trackEvent TT Undefined action name value otherParams w =
     (Some (Error ''Error: category and action are required.''), w) \<and>
   trackEvent TT category Undefined name value otherParams w =
     (Some (Error ''Error: category and action are required.''), w) \<and>
   trackSiteSearch TT Undefined category count otherParams w =
     (Some (Error ''Error: keyword is required.''), w)"
  by (simp add: trackEvent_def trackSiteSearch_def)

subsection \<open>C8: an empty data tuple\<close>

text \<open>
  Claim C8. \<^verbatim>\<open>track\<close> with an empty data tuple, given as \<^verbatim>\<open>[]\<close> or left out, throws
  nothing and leaves the whole state as it was, whatever the title, URL and custom
  dimensions, and whether or not the queue exists.
\<close>

theorem track_empty_data_noop:
  "track (p\<lparr>data := Some []\<rparr>) w = (None, w) \<and> track (p\<lparr>data := None\<rparr>) w = (None, w)"
  by (simp add: track_def)

subsection \<open>C9: \<^verbatim>\<open>trackLink\<close>\<close>

text \<open>
  Claim C9. On a page whose queue exists (a successful construction leaves it existing,
  by \<open>MatomoTracker_defines_queue\<close>, and the tracking methods keep it so, by
  \<open>methods_keep_queue\<close>), \<^verbatim>\<open>trackLink\<close> with an href and no link type
  throws nothing and appends exactly one tuple, the link type, the href and \<^verbatim>\<open>'link'\<close>;
  no \<^verbatim>\<open>setCustomUrl\<close>, \<^verbatim>\<open>setDocumentTitle\<close> or \<^verbatim>\<open>setCustomDimension\<close> tuple comes before it.
\<close>

theorem trackLink_appends_one:
  assumes "paq w = Some q"
  shows "trackLink TT url Undefined w =
    (None, w\<lparr>paq := Some (q @ [[TRACK_LINK TT, url, JStr ''link'']])\<rparr>)"
  using assms by (simp add: trackLink_def push_defined)

theorem trackLink_appends_one_witness:
  "paq busy_window = Some [[JStr ''trackPageView'']] \<and>
   trackLink example_types (JStr ''http://out.example'') Undefined busy_window =
     (None, busy_window\<lparr>paq := Some
        [[JStr ''trackPageView''],
         [JStr ''trackLink'', JStr ''http://out.example'', JStr ''link'']]\<rparr>)"
proof -
  have q: "paq busy_window = Some [[JStr ''trackPageView'']]"
    by (simp add: busy_window_def)
  have t: "TRACK_LINK example_types = JStr ''trackLink''"
    by (simp add: example_types_def)
  show ?thesis
    using q t trackLink_appends_one [OF q, of example_types "JStr ''http://out.example''"]
    by simp
qed

subsection \<open>C10: the queue only grows\<close>

text \<open>
  Claim C10. For every starting state and every call of \<^verbatim>\<open>initialize\<close>, the constructor,
  \<^verbatim>\<open>track\<close>, \<^verbatim>\<open>trackEvent\<close>, \<^verbatim>\<open>trackSiteSearch\<close>, \<^verbatim>\<open>trackPageView\<close> and \<^verbatim>\<open>trackLink\<close>,
  whether the call returns or throws, the queue before the call is a prefix of the queue
  after it (a queue not yet created counting as empty).
\<close>

theorem queue_append_only:
  "prefix (queue w) (queue (snd (initialize options w))) \<and>
   prefix (queue w) (queue (snd (MatomoTracker d u w))) \<and>
   prefix (queue w) (queue (snd (track p w))) \<and>
   prefix (queue w) (queue (snd (trackEvent TT category action name value otherParams w))) \<and>
   prefix (queue w) (queue (snd (trackSiteSearch TT keyword category count otherParams w))) \<and>
   prefix (queue w) (queue (snd (trackPageView TT otherParams w))) \<and>
   prefix (queue w) (queue (snd (trackLink TT url linkType w)))"
  by (simp add: initialize_prefix MatomoTracker_prefix track_prefix trackEvent_prefix
      trackSiteSearch_prefix trackPageView_def trackLink_def Let_def push_prefix)

end
